theory Spec2Isabelle
  imports Main "HOL-Library.AList"
begin

section \<open>JavaScript values used by the server\<close>

text \<open>
  The relay server of \<^verbatim>\<open>src/server.js\<close> keeps all of its state in plain JavaScript
  objects, \<^verbatim>\<open>Set\<close>s and the closure variables of each connection. The embedding keeps
  that shape. An object is an association list in insertion order (\<open>AList.update\<close>
  overwrites in place or appends, \<open>AList.delete\<close> removes), a \<^verbatim>\<open>Set\<close> is a
  duplicate-free list, numbers that the server computes with are naturals, and the
  coordinates it only relays are integers.

  Scope of the embedding: property reads are reads of own properties. Identifiers that
  name a member of \<^verbatim>\<open>Object.prototype\<close> (\<^verbatim>\<open>constructor\<close>, \<^verbatim>\<open>toString\<close>,
  \<^verbatim>\<open>__proto__\<close>, ...) are outside it, as are message fields of the wrong JSON type.
\<close>

subsection \<open>Numbers rendered as strings\<close>

definition digit_char :: "nat \<Rightarrow> char" where
  "digit_char d = ''0123456789'' ! d"

function string_of_nat :: "nat \<Rightarrow> string" where
  "string_of_nat n =
     (if n < 10 then [digit_char n] else string_of_nat (n div 10) @ [digit_char (n mod 10)])"
  by pat_completeness auto
termination
  by (relation "measure id") auto

declare string_of_nat.simps [simp del]

definition digit_val :: "char \<Rightarrow> nat" where
  "digit_val c =
     (case map_of (zip ''0123456789'' [0, 1, 2, 3, 4, 5, 6, 7, 8, 9]) c of
        None \<Rightarrow> 0
      | Some d \<Rightarrow> d)"

definition nat_of_string :: "string \<Rightarrow> nat" where
  "nat_of_string s = foldl (\<lambda>a c. 10 * a + digit_val c) 0 s"

subsection \<open>Upper-casing\<close>

text \<open>\<^verbatim>\<open>String.prototype.toUpperCase\<close> on the ASCII letters; other bytes are kept.\<close>

definition upper_char :: "char \<Rightarrow> char" where
  "upper_char c =
     (case map_of (zip ''abcdefghijklmnopqrstuvwxyz'' ''ABCDEFGHIJKLMNOPQRSTUVWXYZ'') c of
        None \<Rightarrow> c
      | Some u \<Rightarrow> u)"

definition toUpperCase :: "string \<Rightarrow> string" where
  "toUpperCase s = map upper_char s"

subsection \<open>Objects and their key order\<close>

text \<open>
  \<^verbatim>\<open>Object.keys\<close>, \<^verbatim>\<open>Object.values\<close> and \<^verbatim>\<open>Object.entries\<close> enumerate own string
  keys in the order of \<^verbatim>\<open>OrdinaryOwnPropertyKeys\<close>: first the keys that are array
  indices (the canonical decimal rendering of an integer below \<open>2\<^sup>3\<^sup>2 - 1\<close>) in
  ascending numeric order, then every other key in the order of its creation.
\<close>

type_synonym 'a object = "(string \<times> 'a) list"

definition is_array_index :: "string \<Rightarrow> bool" where
  "is_array_index k \<longleftrightarrow>
     string_of_nat (nat_of_string k) = k \<and> int (nat_of_string k) < 4294967295"

definition object_entries :: "'a object \<Rightarrow> (string \<times> 'a) list" where
  "object_entries obj =
     sort_key (\<lambda>e. nat_of_string (fst e)) (filter (\<lambda>e. is_array_index (fst e)) obj)
       @ filter (\<lambda>e. \<not> is_array_index (fst e)) obj"

definition object_keys :: "'a object \<Rightarrow> string list" where
  "object_keys obj = map fst (object_entries obj)"

definition object_values :: "'a object \<Rightarrow> 'a list" where
  "object_values obj = map snd (object_entries obj)"

subsection \<open>Sets\<close>

definition set_add :: "'a \<Rightarrow> 'a list \<Rightarrow> 'a list" where
  "set_add x xs = (if x \<in> set xs then xs else xs @ [x])"

definition set_delete :: "'a \<Rightarrow> 'a list \<Rightarrow> 'a list" where
  "set_delete x xs = removeAll x xs"

section \<open>The data model\<close>

record player =
  ws :: nat
  name :: string
  ready :: bool
  alive :: bool
  position :: "int \<times> int"
  color :: string

record room =
  host :: string
  players :: "player object"
  started :: bool
  current_level :: nat
  level_wins :: "nat object"
  ready_players :: "string list"
  finished_players :: "string list"
  death_placeholders :: "(int \<times> int) object"

text \<open>
  The closure variables of one connection. Both start as \<^verbatim>\<open>null\<close>; a handler reads
  \<open>playerId\<close> only behind the test of \<open>playerRoomCode\<close>.
\<close>

record session =
  playerRoomCode :: "string option"
  playerId :: "string option"

text \<open>
  The process: the global \<^verbatim>\<open>rooms\<close> object, the closure variables of every
  connection (connections are numbered), the connections whose \<^verbatim>\<open>readyState\<close> is no
  longer \<^verbatim>\<open>OPEN\<close>, and the pending level-advance timers in the order they were
  scheduled. All timers have the same delay, so they fire in that order; each holds the
  connection whose handler scheduled it, because its callback reads that connection's
  \<open>playerRoomCode\<close> when it fires.
\<close>

record server =
  rooms :: "room object"
  sessions :: "nat \<Rightarrow> session"
  closed :: "nat set"
  timers :: "nat list"

definition init_server :: server where
  "init_server =
     \<lparr>rooms = [], sessions = (\<lambda>w. \<lparr>playerRoomCode = None, playerId = None\<rparr>),
      closed = {}, timers = []\<rparr>"

subsection \<open>Messages\<close>

text \<open>
  An inbound message after \<^verbatim>\<open>JSON.parse\<close>, by its \<^verbatim>\<open>type\<close>. A string field that
  is missing or empty is the empty string (both are falsy). \<open>Unrecognised\<close> stands for
  a payload that does not parse and for a type the switch does not know.
\<close>

datatype msg =
    CreateRoom string string
  | JoinRoom string string string
  | PlayerReady bool
  | StartGame
  | PlayerPosition int int
  | PlayerDied int int
  | RevivePlayer string
  | PlayerFinished
  | LobbyPosition int int
  | Unrecognised

datatype reply =
    Room_created string string bool
  | Room_joined string string bool "(string \<times> string \<times> bool \<times> string) list" string
  | Player_joined string string string
  | Error string
  | Player_ready_update string bool nat nat
  | Game_start nat "(string \<times> string \<times> string) list" string
  | Player_moved string int int
  | Player_died string int int
  | You_died int int
  | Player_revived string string int int
  | Player_finished string bool nat nat "nat object"
  | Lobby_player_moved string int int
  | Player_left string
  | New_host string
  | Next_level nat "nat object"
  | Game_over "nat object"

type_synonym outbox = "(nat \<times> reply) list"

text \<open>
  What ends a handler early: an uncaught \<^verbatim>\<open>TypeError\<close> (a property of
  \<^verbatim>\<open>undefined\<close> is written), or the random draws handed to the handler are used up
  before the loop that consumes them has finished.
\<close>

datatype failure = TypeError | Out_of_random

section \<open>The server\<close>

subsection \<open>Room codes\<close>

definition chars :: string where
  "chars = ''ABCDEFGHJKLMNPQRSTUVWXYZ23456789''"

text \<open>
  \<open>generateRoomCode\<close> draws four times from \<^verbatim>\<open>Math.random\<close>; the draws are an
  argument, each already scaled and floored.
\<close>

fun generateRoomCode :: "nat list \<Rightarrow> (string \<times> nat list) option" where
  "generateRoomCode (a # b # c # d # rest) =
     Some (map (\<lambda>r. chars ! (r mod length chars)) [a, b, c, d], rest)"
| "generateRoomCode _ = None"

lemma generateRoomCode_shorter:
  "generateRoomCode rnd = Some (code, rest) \<Longrightarrow> length rest < length rnd"
  by (induction rnd rule: generateRoomCode.induct) auto

function fresh_code :: "room object \<Rightarrow> nat list \<Rightarrow> string option" where
  "fresh_code rs rnd =
     (case generateRoomCode rnd of
        None \<Rightarrow> None
      | Some (code, rest) \<Rightarrow> if map_of rs code \<noteq> None then fresh_code rs rest else Some code)"
  by pat_completeness auto
termination
  by (relation "measure (\<lambda>(rs, rnd). length rnd)") (auto dest: generateRoomCode_shorter)

declare fresh_code.simps [simp del]

subsection \<open>Sending\<close>

text \<open>
  \<open>sendTo\<close> and \<open>broadcastToRoom\<close> write only to a connection whose
  \<^verbatim>\<open>readyState\<close> is \<^verbatim>\<open>OPEN\<close>. The outbox lists the calls of \<^verbatim>\<open>ws.send\<close> in order.
\<close>

definition sendTo :: "server \<Rightarrow> nat \<Rightarrow> reply \<Rightarrow> outbox" where
  "sendTo s w message = (if w \<in> closed s then [] else [(w, message)])"

definition broadcastToRoom :: "server \<Rightarrow> string \<Rightarrow> reply \<Rightarrow> nat option \<Rightarrow> outbox" where
  "broadcastToRoom s roomCode message excludeWs =
     (case map_of (rooms s) roomCode of
        None \<Rightarrow> []
      | Some room \<Rightarrow>
          concat (map (\<lambda>p. if Some (ws p) \<noteq> excludeWs \<and> ws p \<notin> closed s
                            then [(ws p, message)] else [])
                   (object_values (players room))))"

definition sendToRoom :: "server \<Rightarrow> string \<Rightarrow> reply \<Rightarrow> outbox" where
  "sendToRoom s roomCode message = broadcastToRoom s roomCode message None"

subsection \<open>The guard of the handlers\<close>

text \<open>
  \<^verbatim>\<open>if (!playerRoomCode || !rooms[playerRoomCode]) return;\<close> and the room it lets
  through.
\<close>

definition bound_room :: "server \<Rightarrow> nat \<Rightarrow> (string \<times> room) option" where
  "bound_room s w =
     (case playerRoomCode (sessions s w) of
        None \<Rightarrow> None
      | Some code \<Rightarrow>
          if code = [] then None
          else (case map_of (rooms s) code of None \<Rightarrow> None | Some room \<Rightarrow> Some (code, room)))"

text \<open>
  \<open>playerId\<close> as a property key and message field. Behind the guard it is a string;
  \<^verbatim>\<open>null\<close> as a property key would read \<^verbatim>\<open>"null"\<close>.
\<close>

definition current_id :: "server \<Rightarrow> nat \<Rightarrow> string" where
  "current_id s w = (case playerId (sessions s w) of None \<Rightarrow> ''null'' | Some p \<Rightarrow> p)"

definition set_room :: "server \<Rightarrow> string \<Rightarrow> room \<Rightarrow> server" where
  "set_room s code room = s\<lparr>rooms := AList.update code room (rooms s)\<rparr>"

subsection \<open>create_room\<close>

definition or_default :: "string \<Rightarrow> string \<Rightarrow> string" where
  "or_default v d = (if v = [] then d else v)"

definition create_room :: "server \<Rightarrow> nat \<Rightarrow> string \<Rightarrow> string \<Rightarrow> nat list \<Rightarrow> failure + server \<times> outbox" where
  "create_room s w player_name clr rnd =
     (case fresh_code (rooms s) rnd of
        None \<Rightarrow> Inl Out_of_random
      | Some code \<Rightarrow>
          let pid = or_default player_name ''Player1'';
              room0 = \<lparr>host = pid, players = [], started = False, current_level = 1,
                       level_wins = [], ready_players = [], finished_players = [],
                       death_placeholders = []\<rparr>;
              room1 = room0\<lparr>players := AList.update pid
                        \<lparr>ws = w, name = pid, ready = False, alive = True,
                         position = (360, 400), color = or_default clr ''#4dff7c''\<rparr>
                        (players room0)\<rparr>;
              s1 = (set_room s code room1)
                     \<lparr>sessions := (sessions s)(w := \<lparr>playerRoomCode = Some code, playerId = Some pid\<rparr>)\<rparr>
          in Inr (s1, sendTo s1 w (Room_created code pid True)))"

subsection \<open>join_room\<close>

text \<open>
  The loop that makes the name unique:
  \<^verbatim>\<open>while (rooms[code].players[playerId]) { playerId = baseName + counter; counter++; }\<close>
\<close>

lemma nat_of_string_snoc:
  "nat_of_string (s @ [c]) = 10 * nat_of_string s + digit_val c"
  by (simp add: nat_of_string_def)

lemma digit_val_digit_char: "d < 10 \<Longrightarrow> digit_val (digit_char d) = d"
proof -
  assume "d < 10"
  then have "d = 0 \<or> d = 1 \<or> d = 2 \<or> d = 3 \<or> d = 4 \<or> d = 5 \<or> d = 6 \<or> d = 7 \<or> d = 8 \<or> d = 9"
    by arith
  then show ?thesis
    by (elim disjE) (simp_all add: digit_val_def digit_char_def)
qed

lemma nat_of_string_of_nat: "nat_of_string (string_of_nat n) = n"
proof (induction n rule: string_of_nat.induct)
  case (1 n)
  show ?case
  proof (cases "n < 10")
    case True
    then show ?thesis
      by (subst string_of_nat.simps) (simp add: nat_of_string_def digit_val_digit_char)
  next
    case False
    with 1 have "nat_of_string (string_of_nat (n div 10)) = n div 10"
      by simp
    with False show ?thesis
      by (subst string_of_nat.simps) (simp add: nat_of_string_snoc digit_val_digit_char)
  qed
qed

lemma string_of_nat_inj: "string_of_nat m = string_of_nat n \<Longrightarrow> m = n"
  by (metis nat_of_string_of_nat)

lemma finite_suffixes_taken:
  "finite {k. map_of (ps :: 'a object) (b @ string_of_nat k) \<noteq> None}"
proof -
  have "inj (\<lambda>k. b @ string_of_nat k)"
    by (rule injI) (simp add: string_of_nat_inj)
  then have "finite ((\<lambda>k. b @ string_of_nat k) -` (fst ` set ps))"
    by (intro finite_vimageI) simp_all
  moreover have "{k. map_of ps (b @ string_of_nat k) \<noteq> None}
      \<subseteq> (\<lambda>k. b @ string_of_nat k) -` (fst ` set ps)"
    by (auto simp: map_of_eq_None_iff)
  ultimately show ?thesis
    by (rule rev_finite_subset)
qed

function unique_name :: "player object \<Rightarrow> string \<Rightarrow> string \<Rightarrow> nat \<Rightarrow> string" where
  "unique_name ps baseName pid counter =
     (if map_of ps pid \<noteq> None
      then unique_name ps baseName (baseName @ string_of_nat counter) (counter + 1)
      else pid)"
  by pat_completeness auto
termination
proof (relation "measure (\<lambda>(ps, b, p, c).
          2 * card {k. c \<le> k \<and> map_of ps (b @ string_of_nat k) \<noteq> None}
            + (if map_of ps p \<noteq> None then 1 else 0))", goal_cases)
  case 1
  show ?case by simp
next
  case (2 ps b p c)
  let ?T = "\<lambda>c. {k. c \<le> k \<and> map_of ps (b @ string_of_nat k) \<noteq> None}"
  have fin: "finite (?T c)"
    by (rule rev_finite_subset [OF finite_suffixes_taken [of ps b]]) auto
  show ?case
  proof (cases "map_of ps (b @ string_of_nat c) \<noteq> None")
    case True
    have "?T (c + 1) = ?T c - {c}"
      by auto
    moreover from True have "c \<in> ?T c"
      by simp
    ultimately have "card (?T (c + 1)) < card (?T c)"
      using fin by (simp only: card_Diff1_less)
    with 2 True show ?thesis
      by simp
  next
    case False
    have "?T (c + 1) = ?T c"
    proof -
      have "k \<in> ?T c \<Longrightarrow> k \<in> ?T (c + 1)" for k
        using False by (cases "k = c") auto
      then show ?thesis
        by auto
    qed
    with 2 False show ?thesis
      by simp
  qed
qed

declare unique_name.simps [simp del]

definition join_name :: "string \<Rightarrow> nat list \<Rightarrow> string option" where
  "join_name player_name rnd =
     (if player_name \<noteq> [] then Some player_name
      else (case rnd of
              [] \<Rightarrow> None
            | r # _ \<Rightarrow> Some (''Player'' @ string_of_nat (r mod 999))))"

definition join_room :: "server \<Rightarrow> nat \<Rightarrow> string \<Rightarrow> string \<Rightarrow> string \<Rightarrow> nat list \<Rightarrow> failure + server \<times> outbox" where
  "join_room s w room_code player_name clr rnd =
     (let code = toUpperCase room_code in
      case join_name player_name rnd of
        None \<Rightarrow> Inl Out_of_random
      | Some pid0 \<Rightarrow>
          (let s0 = s\<lparr>sessions := (sessions s)(w := (sessions s w)\<lparr>playerId := Some pid0\<rparr>)\<rparr> in
           case map_of (rooms s0) code of
             None \<Rightarrow> Inr (s0, sendTo s0 w (Error ''Room not found''))
           | Some room \<Rightarrow>
               (if started room then Inr (s0, sendTo s0 w (Error ''Game already started''))
                else if length (object_keys (players room)) \<ge> 10
                then Inr (s0, sendTo s0 w (Error ''Room is full''))
                else
                  (let pid = unique_name (players room) pid0 pid0 1;
                       clr1 = or_default clr ''#ff6b6b'';
                       room1 = room\<lparr>players := AList.update pid
                                 \<lparr>ws = w, name = pid, ready = False, alive = True,
                                  position = (360, 400), color = clr1\<rparr>
                                 (players room)\<rparr>;
                       s1 = (set_room s0 code room1)
                              \<lparr>sessions := (sessions s0)(w := \<lparr>playerRoomCode = Some code, playerId = Some pid\<rparr>)\<rparr>;
                       existingPlayers = map (\<lambda>(i, p). (i, name p, ready p, color p))
                                           (object_entries (players room1))
                   in Inr (s1, sendTo s1 w (Room_joined code pid False existingPlayers (host room1))
                               @ broadcastToRoom s1 code (Player_joined pid pid clr1) (Some w))))))"

subsection \<open>The handlers behind the guard\<close>

definition player_ready :: "server \<Rightarrow> nat \<Rightarrow> bool \<Rightarrow> failure + server \<times> outbox" where
  "player_ready s w rdy =
     (case bound_room s w of
        None \<Rightarrow> Inr (s, [])
      | Some (code, room) \<Rightarrow>
          (let pid = current_id s w in
           case map_of (players room) pid of
             None \<Rightarrow> Inl TypeError
           | Some p \<Rightarrow>
               (let room1 = room\<lparr>players := AList.update pid (p\<lparr>ready := rdy\<rparr>) (players room)\<rparr>;
                    room2 = room1\<lparr>ready_players :=
                              (if rdy then set_add pid (ready_players room1)
                               else set_delete pid (ready_players room1))\<rparr>;
                    s1 = set_room s code room2
                in Inr (s1, broadcastToRoom s1 code
                              (Player_ready_update pid rdy (length (ready_players room2))
                                 (length (object_keys (players room2))))
                              None))))"

text \<open>
  \<^verbatim>\<open>if (!room.level_wins[id]) room.level_wins[id] = 0;\<close> for every key of
  \<open>players\<close>: a missing entry and an entry \<open>0\<close> are both falsy.
\<close>

definition init_level_wins :: "string list \<Rightarrow> nat object \<Rightarrow> nat object" where
  "init_level_wins ids lw =
     fold (\<lambda>i acc. if map_of acc i = None \<or> map_of acc i = Some 0
                      then AList.update i 0 acc else acc) ids lw"

definition start_game :: "server \<Rightarrow> nat \<Rightarrow> failure + server \<times> outbox" where
  "start_game s w =
     (case bound_room s w of
        None \<Rightarrow> Inr (s, [])
      | Some (code, room) \<Rightarrow>
          (if current_id s w \<noteq> host room then Inr (s, [])
           else if length (ready_players room) < length (object_keys (players room))
           then Inr (s, sendTo s w (Error ''Not all players are ready''))
           else
             (let room1 = room\<lparr>started := True, current_level := 1, finished_players := [],
                               death_placeholders := []\<rparr>;
                  room2 = room1\<lparr>players := AList.map_ran (\<lambda>i p. p\<lparr>alive := True\<rparr>) (players room1)\<rparr>;
                  room3 = room2\<lparr>level_wins :=
                            init_level_wins (object_keys (players room2)) (level_wins room2)\<rparr>;
                  s1 = set_room s code room3;
                  playerList = map (\<lambda>(i, p). (i, name p, color p)) (object_entries (players room3))
              in Inr (s1, concat (map (\<lambda>(i, p). sendTo s1 (ws p) (Game_start 1 playerList i))
                                    (object_entries (players room3)))))))"

definition player_position :: "server \<Rightarrow> nat \<Rightarrow> int \<Rightarrow> int \<Rightarrow> failure + server \<times> outbox" where
  "player_position s w x y =
     (case bound_room s w of
        None \<Rightarrow> Inr (s, [])
      | Some (code, room) \<Rightarrow>
          Inr (s, broadcastToRoom s code (Player_moved (current_id s w) x y) (Some w)))"

definition player_died :: "server \<Rightarrow> nat \<Rightarrow> int \<Rightarrow> int \<Rightarrow> failure + server \<times> outbox" where
  "player_died s w x y =
     (case bound_room s w of
        None \<Rightarrow> Inr (s, [])
      | Some (code, room) \<Rightarrow>
          (let pid = current_id s w in
           case map_of (players room) pid of
             None \<Rightarrow> Inl TypeError
           | Some p \<Rightarrow>
               (let room1 = room\<lparr>players := AList.update pid (p\<lparr>alive := False\<rparr>) (players room)\<rparr>;
                    room2 = room1\<lparr>death_placeholders :=
                              AList.update pid (x, y) (death_placeholders room1)\<rparr>;
                    s1 = set_room s code room2
                in Inr (s1, broadcastToRoom s1 code (Player_died pid x y) (Some w)
                            @ sendTo s1 w (You_died x y)))))"

definition revive_player :: "server \<Rightarrow> nat \<Rightarrow> string \<Rightarrow> failure + server \<times> outbox" where
  "revive_player s w targetId =
     (case bound_room s w of
        None \<Rightarrow> Inr (s, [])
      | Some (code, room) \<Rightarrow>
          (case map_of (death_placeholders room) targetId of
             None \<Rightarrow> Inr (s, [])
           | Some pos \<Rightarrow>
               (case map_of (players room) targetId of
                  None \<Rightarrow> Inl TypeError
                | Some p \<Rightarrow>
                    (let room1 = room\<lparr>players :=
                                   AList.update targetId (p\<lparr>alive := True\<rparr>) (players room)\<rparr>;
                         room2 = room1\<lparr>death_placeholders :=
                                   AList.delete targetId (death_placeholders room1)\<rparr>;
                         s1 = set_room s code room2
                     in Inr (s1, concat (map (\<lambda>(i, q). sendTo s1 (ws q)
                                                (Player_revived targetId (current_id s w) (fst pos) (snd pos)))
                                           (object_entries (players room2))))))))"

definition player_finished :: "server \<Rightarrow> nat \<Rightarrow> failure + server \<times> outbox" where
  "player_finished s w =
     (case bound_room s w of
        None \<Rightarrow> Inr (s, [])
      | Some (code, room) \<Rightarrow>
          (let pid = current_id s w;
               room1 = room\<lparr>finished_players := set_add pid (finished_players room)\<rparr>;
               is_first = (length (finished_players room1) = 1);
               room2 = (if is_first
                        then room1\<lparr>level_wins :=
                               AList.update pid
                                 ((case map_of (level_wins room1) pid of None \<Rightarrow> 0 | Some n \<Rightarrow> n) + 1)
                                 (level_wins room1)\<rparr>
                        else room1);
               s1 = set_room s code room2;
               out = concat (map (\<lambda>(i, p). sendTo s1 (ws p)
                                    (Player_finished pid is_first (length (finished_players room2))
                                       (length (object_keys (players room2))) (level_wins room2)))
                               (object_entries (players room2)));
               s2 = (if is_first then s1\<lparr>timers := timers s1 @ [w]\<rparr> else s1)
           in Inr (s2, out)))"

definition lobby_position :: "server \<Rightarrow> nat \<Rightarrow> int \<Rightarrow> int \<Rightarrow> failure + server \<times> outbox" where
  "lobby_position s w x y =
     (case bound_room s w of
        None \<Rightarrow> Inr (s, [])
      | Some (code, room) \<Rightarrow>
          Inr (s, broadcastToRoom s code (Lobby_player_moved (current_id s w) x y) (Some w)))"

text \<open>The \<^verbatim>\<open>switch (msg.type)\<close> of the message handler.\<close>

fun on_message :: "server \<Rightarrow> nat \<Rightarrow> msg \<Rightarrow> nat list \<Rightarrow> failure + server \<times> outbox" where
  "on_message s w (CreateRoom player_name clr) rnd = create_room s w player_name clr rnd"
| "on_message s w (JoinRoom room_code player_name clr) rnd = join_room s w room_code player_name clr rnd"
| "on_message s w (PlayerReady rdy) rnd = player_ready s w rdy"
| "on_message s w StartGame rnd = start_game s w"
| "on_message s w (PlayerPosition x y) rnd = player_position s w x y"
| "on_message s w (PlayerDied x y) rnd = player_died s w x y"
| "on_message s w (RevivePlayer targetId) rnd = revive_player s w targetId"
| "on_message s w PlayerFinished rnd = player_finished s w"
| "on_message s w (LobbyPosition x y) rnd = lobby_position s w x y"
| "on_message s w Unrecognised rnd = Inr (s, [])"

subsection \<open>Disconnect\<close>

definition on_close :: "server \<Rightarrow> nat \<Rightarrow> server \<times> outbox" where
  "on_close s0 w =
     (let s = s0\<lparr>closed := insert w (closed s0)\<rparr> in
      case bound_room s w of
        None \<Rightarrow> (s, [])
      | Some (code, room) \<Rightarrow>
          (let pid = current_id s w;
               room1 = room\<lparr>players := AList.delete pid (players room),
                             ready_players := set_delete pid (ready_players room),
                             finished_players := set_delete pid (finished_players room),
                             death_placeholders := AList.delete pid (death_placeholders room)\<rparr>;
               s1 = set_room s code room1;
               left = broadcastToRoom s1 code (Player_left pid) None
           in case object_keys (players room1) of
                [] \<Rightarrow> (s1\<lparr>rooms := AList.delete code (rooms s1)\<rparr>, left)
              | newHost # _ \<Rightarrow>
                  (if host room1 = pid
                   then (let room2 = room1\<lparr>host := newHost\<rparr>;
                             s2 = set_room s1 code room2
                         in (s2, left @ concat (map (\<lambda>(i, p). sendTo s2 (ws p) (New_host newHost))
                                                  (object_entries (players room2)))))
                   else (s1, left))))"

subsection \<open>Level advancement and its timer\<close>

definition advanceLevel :: "server \<Rightarrow> string \<Rightarrow> server \<times> outbox" where
  "advanceLevel s roomCode =
     (case map_of (rooms s) roomCode of
        None \<Rightarrow> (s, [])
      | Some room \<Rightarrow>
          (let room1 = room\<lparr>current_level := current_level room + 1, finished_players := [],
                            death_placeholders := []\<rparr>;
               room2 = room1\<lparr>players := AList.map_ran (\<lambda>i p. p\<lparr>alive := True\<rparr>) (players room1)\<rparr>;
               s1 = set_room s roomCode room2
           in if current_level room2 > 20
              then (let room3 = room2\<lparr>started := False\<rparr>
                    in (set_room s1 roomCode room3,
                        concat (map (\<lambda>(i, p). sendTo s1 (ws p) (Game_over (level_wins room2)))
                                  (object_entries (players room2)))))
              else (s1, concat (map (\<lambda>(i, p). sendTo s1 (ws p)
                                       (Next_level (current_level room2) (level_wins room2)))
                                  (object_entries (players room2))))))"

text \<open>
  The callback of \<^verbatim>\<open>setTimeout\<close>: the oldest pending timer fires and reads the
  \<open>playerRoomCode\<close> of the connection that scheduled it.
\<close>

definition on_timeout :: "server \<Rightarrow> server \<times> outbox" where
  "on_timeout s =
     (case timers s of
        [] \<Rightarrow> (s, [])
      | w # rest \<Rightarrow>
          (let s1 = s\<lparr>timers := rest\<rparr> in
           case playerRoomCode (sessions s1 w) of
             None \<Rightarrow> (s1, [])
           | Some code \<Rightarrow>
               (case map_of (rooms s1) code of
                  None \<Rightarrow> (s1, [])
                | Some room \<Rightarrow> advanceLevel s1 code)))"

subsection \<open>Events and runs\<close>

text \<open>
  One event is handled to completion before the next: a message of an open connection
  (with the random draws its handler may consume), the close of an open connection, or
  the firing of the oldest pending timer.
\<close>

datatype event = Message nat msg "nat list" | Close nat | Timeout

fun step :: "server \<Rightarrow> event \<Rightarrow> failure + server \<times> outbox" where
  "step s (Message w m rnd) = on_message s w m rnd"
| "step s (Close w) = Inr (on_close s w)"
| "step s Timeout = Inr (on_timeout s)"

fun enabled :: "server \<Rightarrow> event \<Rightarrow> bool" where
  "enabled s (Message w m rnd) = (w \<notin> closed s)"
| "enabled s (Close w) = (w \<notin> closed s)"
| "enabled s Timeout = (timers s \<noteq> [])"

text \<open>
  A run of events from a state: \<open>None\<close> when an event is not enabled where it stands
  or its handler fails.
\<close>

fun exec :: "server \<Rightarrow> event list \<Rightarrow> (server \<times> outbox) option" where
  "exec s [] = Some (s, [])"
| "exec s (e # es) =
     (if enabled s e
      then (case step s e of
              Inl f \<Rightarrow> None
            | Inr (s1, out) \<Rightarrow>
                (case exec s1 es of
                   None \<Rightarrow> None
                 | Some (s2, out2) \<Rightarrow> Some (s2, out @ out2)))
      else None)"

definition after :: "event list \<Rightarrow> server" where
  "after es = (case exec init_server es of None \<Rightarrow> init_server | Some (s, out) \<Rightarrow> s)"

inductive reachable :: "server \<Rightarrow> bool" where
  reachable_init: "reachable init_server"
| reachable_step: "reachable s \<Longrightarrow> enabled s e \<Longrightarrow> step s e = Inr (s1, out) \<Longrightarrow> reachable s1"

subsection \<open>Observing a run\<close>

definition room_after :: "event list \<Rightarrow> string \<Rightarrow> room option" where
  "room_after es code = map_of (rooms (after es)) code"

definition replies :: "failure + server \<times> outbox \<Rightarrow> outbox" where
  "replies r = (case r of Inl f \<Rightarrow> [] | Inr (s, out) \<Rightarrow> out)"

definition failure_of :: "failure + server \<times> outbox \<Rightarrow> failure option" where
  "failure_of r = (case r of Inl f \<Rightarrow> Some f | Inr x \<Rightarrow> None)"

subsection \<open>Scenarios\<close>

text \<open>
  Connection 0 creates room \<^verbatim>\<open>AAAA\<close> as \<^verbatim>\<open>A\<close>, connection 1 joins as \<^verbatim>\<open>B\<close>, both
  signal ready and the host starts the match.
\<close>

definition match_of_two :: "event list" where
  "match_of_two =
     [Message 0 (CreateRoom ''A'' '''') [0, 0, 0, 0],
      Message 1 (JoinRoom ''aaaa'' ''B'' '''') [],
      Message 0 (PlayerReady True) [],
      Message 1 (PlayerReady True) [],
      Message 0 StartGame []]"

text \<open>
  Connection 0 creates room \<^verbatim>\<open>AAAA\<close> as \<^verbatim>\<open>A\<close> and then asks to join a room
  that does not exist under the name \<^verbatim>\<open>B\<close>.
\<close>

definition stale_id :: "event list" where
  "stale_id =
     [Message 0 (CreateRoom ''A'' '''') [0, 0, 0, 0],
      Message 0 (JoinRoom ''ZZZZ'' ''B'' '''') []]"

text \<open>Connection 0 creates room \<^verbatim>\<open>AAAA\<close>, then room \<^verbatim>\<open>BBBB\<close>, then disconnects.\<close>

definition two_rooms :: "event list" where
  "two_rooms =
     [Message 0 (CreateRoom ''A'' '''') [0, 0, 0, 0],
      Message 0 (CreateRoom ''A'' '''') [1, 1, 1, 1],
      Close 0]"


text \<open>
  The match of two, in which \<^verbatim>\<open>A\<close> reports the finish and the timer fires, twenty-one
  times over.
\<close>

definition beyond_last_level :: "event list" where
  "beyond_last_level =
     match_of_two @ concat (replicate 21 [Message 0 PlayerFinished [], Timeout])"




section \<open>Notions used by the properties\<close>

text \<open>
  What every live room satisfies: it has a player; the ids of the roster are distinct;
  the ready set and the death placeholders name players only; the level is at least 1
  and at most 20 while the match is in progress; and while the match is in progress
  every player has a \<open>level_wins\<close> entry.
\<close>

definition room_inv :: "room \<Rightarrow> bool" where
  "room_inv r \<longleftrightarrow>
     players r \<noteq> []
     \<and> distinct (map fst (players r))
     \<and> distinct (ready_players r)
     \<and> set (ready_players r) \<subseteq> fst ` set (players r)
     \<and> fst ` set (death_placeholders r) \<subseteq> fst ` set (players r)
     \<and> 1 \<le> current_level r
     \<and> (started r \<longrightarrow> current_level r \<le> 20)
     \<and> (started r \<longrightarrow> fst ` set (players r) \<subseteq> fst ` set (level_wins r))"

definition rooms_inv :: "room object \<Rightarrow> bool" where
  "rooms_inv rs \<longleftrightarrow> (\<forall>code room. map_of rs code = Some room \<longrightarrow> room_inv room)"

definition server_inv :: "server \<Rightarrow> bool" where
  "server_inv s \<longleftrightarrow> rooms_inv (rooms s)"







section \<open>Lemmas\<close>

subsection \<open>Objects\<close>

lemma set_object_entries: "set (object_entries al) = set al"
  by (auto simp: object_entries_def)


lemma set_object_keys: "set (object_keys al) = fst ` set al"
  by (simp add: object_keys_def set_object_entries)



subsection \<open>The room invariant is preserved\<close>

lemma rooms_inv_update:
  "rooms_inv rs \<Longrightarrow> room_inv room \<Longrightarrow> rooms_inv (AList.update code room rs)"
  by (auto simp: rooms_inv_def update_conv')

lemma rooms_inv_delete:
  "rooms_inv rs \<Longrightarrow> rooms_inv (AList.delete code rs)"
  by (auto simp: rooms_inv_def delete_conv' split: if_splits)

lemma bound_roomD:
  "bound_room s w = Some (code, room) \<Longrightarrow> map_of (rooms s) code = Some room"
  by (auto simp: bound_room_def split: option.splits if_splits)

lemma server_invD: "server_inv s \<Longrightarrow> bound_room s w = Some (code, room) \<Longrightarrow> room_inv room"
  by (auto simp: server_inv_def rooms_inv_def dest: bound_roomD)

lemma map_of_keyI: "map_of al k = Some v \<Longrightarrow> k \<in> fst ` set al"
  by (metis map_of_eq_None_iff option.distinct(1))

lemma room_inv_add_player:
  "room_inv r \<Longrightarrow> \<not> started r \<Longrightarrow>
   room_inv (r\<lparr>players := AList.update pid p (players r)\<rparr>)"
  by (auto simp: room_inv_def distinct_update dom_update)

lemma room_inv_set_player:
  assumes "room_inv r" and "map_of (players r) pid = Some p"
  shows "room_inv (r\<lparr>players := AList.update pid q (players r),
                     ready_players := set_add pid (ready_players r)\<rparr>)"
    and "room_inv (r\<lparr>players := AList.update pid q (players r),
                     ready_players := set_delete pid (ready_players r)\<rparr>)"
  using assms(1) map_of_keyI [OF assms(2)]
  by (auto simp: room_inv_def distinct_update dom_update set_add_def set_delete_def
           distinct_removeAll)

lemma room_inv_died:
  assumes "room_inv r" and "map_of (players r) pid = Some p"
  shows "room_inv (r\<lparr>players := AList.update pid q (players r),
                     death_placeholders := AList.update pid pos (death_placeholders r)\<rparr>)"
  using assms(1) map_of_keyI [OF assms(2)]
  by (auto simp: room_inv_def distinct_update dom_update)

lemma room_inv_revived:
  assumes "room_inv r" and "map_of (players r) pid = Some p"
  shows "room_inv (r\<lparr>players := AList.update pid q (players r),
                     death_placeholders := AList.delete pid (death_placeholders r)\<rparr>)"
  using assms(1) map_of_keyI [OF assms(2)] dom_delete_subset [of pid "death_placeholders r"]
  by (auto simp: room_inv_def distinct_update dom_update)

lemma map_ran_Nil_iff: "AList.map_ran f al = [] \<longleftrightarrow> al = []"
  by (cases al) auto

lemma init_level_wins_Cons:
  "init_level_wins (i # ids) lw =
     init_level_wins ids
       (if map_of lw i = None \<or> map_of lw i = Some 0 then AList.update i 0 lw else lw)"
  by (simp add: init_level_wins_def)

lemma init_level_wins_keeps:
  "map_of lw p = Some n \<Longrightarrow> map_of (init_level_wins ids lw) p = Some n"
proof (induction ids arbitrary: lw)
  case Nil
  then show ?case by (simp add: init_level_wins_def)
next
  case (Cons i ids)
  let ?lw = "if map_of lw i = None \<or> map_of lw i = Some 0 then AList.update i 0 lw else lw"
  from Cons.prems have "map_of ?lw p = Some n"
    by (auto simp: update_conv')
  then have "map_of (init_level_wins ids ?lw) p = Some n"
    by (rule Cons.IH)
  then show ?case
    by (simp only: init_level_wins_Cons)
qed

lemma init_level_wins_covers:
  "i \<in> set ids \<Longrightarrow> map_of (init_level_wins ids lw) i \<noteq> None"
proof (induction ids arbitrary: lw)
  case Nil
  then show ?case by simp
next
  case (Cons j ids)
  let ?lw = "if map_of lw j = None \<or> map_of lw j = Some 0 then AList.update j 0 lw else lw"
  show ?case
  proof (cases "i = j")
    case True
    have "map_of ?lw j \<noteq> None"
      by (simp add: update_conv')
    with True obtain n where "map_of ?lw i = Some n"
      by blast
    then have "map_of (init_level_wins ids ?lw) i = Some n"
      by (rule init_level_wins_keeps)
    then show ?thesis
      by (simp only: init_level_wins_Cons) simp
  next
    case False
    with Cons.prems have "i \<in> set ids"
      by simp
    then have "map_of (init_level_wins ids ?lw) i \<noteq> None"
      by (rule Cons.IH)
    then show ?thesis
      by (simp only: init_level_wins_Cons) simp
  qed
qed

lemma init_level_wins_keys:
  "set ids \<subseteq> fst ` set (init_level_wins ids lw)"
proof
  fix i
  assume "i \<in> set ids"
  then have "map_of (init_level_wins ids lw) i \<noteq> None"
    by (rule init_level_wins_covers)
  then show "i \<in> fst ` set (init_level_wins ids lw)"
    by (simp add: map_of_eq_None_iff)
qed

lemma room_inv_started:
  "room_inv r \<Longrightarrow>
   room_inv (r\<lparr>started := True, current_level := Suc 0, finished_players := [],
               death_placeholders := [],
               players := AList.map_ran f (players r),
               level_wins := init_level_wins (object_keys (AList.map_ran f (players r)))
                               (level_wins r)\<rparr>)"
  using init_level_wins_keys [of "object_keys (AList.map_ran f (players r))" "level_wins r"]
  by (auto simp: room_inv_def distinct_map_ran dom_map_ran map_ran_Nil_iff set_object_keys)

lemma room_inv_finished:
  "room_inv r \<Longrightarrow> room_inv (r\<lparr>finished_players := fs\<rparr>)"
  "room_inv r \<Longrightarrow>
   room_inv (r\<lparr>finished_players := fs, level_wins := AList.update pid v (level_wins r)\<rparr>)"
  by (auto simp: room_inv_def dom_update)

lemma room_inv_advanced:
  "room_inv r \<Longrightarrow> current_level r < 20 \<Longrightarrow>
   room_inv (r\<lparr>current_level := Suc (current_level r), finished_players := [],
               death_placeholders := [], players := AList.map_ran f (players r)\<rparr>)"
  "room_inv r \<Longrightarrow>
   room_inv (r\<lparr>current_level := Suc (current_level r), finished_players := [],
               death_placeholders := [], players := AList.map_ran f (players r),
               started := False\<rparr>)"
  by (auto simp: room_inv_def distinct_map_ran dom_map_ran map_ran_Nil_iff)

lemma keys_delete: "fst ` set (AList.delete k al) = fst ` set al - {k}"
  by (auto simp: AList.delete_eq)

lemma room_inv_left:
  "room_inv r \<Longrightarrow> AList.delete pid (players r) \<noteq> [] \<Longrightarrow>
   room_inv (r\<lparr>players := AList.delete pid (players r),
               ready_players := set_delete pid (ready_players r),
               finished_players := fs,
               death_placeholders := AList.delete pid (death_placeholders r)\<rparr>)"
  "room_inv r \<Longrightarrow> AList.delete pid (players r) \<noteq> [] \<Longrightarrow>
   room_inv (r\<lparr>players := AList.delete pid (players r),
               ready_players := set_delete pid (ready_players r),
               finished_players := fs,
               death_placeholders := AList.delete pid (death_placeholders r),
               host := h\<rparr>)"
  by (auto simp: room_inv_def distinct_delete keys_delete set_delete_def distinct_removeAll)

lemma rooms_invD: "rooms_inv rs \<Longrightarrow> map_of rs code = Some room \<Longrightarrow> room_inv room"
  by (auto simp: rooms_inv_def)

lemma create_room_inv:
  "server_inv s \<Longrightarrow> create_room s w nm clr rnd = Inr (s1, out) \<Longrightarrow> server_inv s1"
  by (auto simp: create_room_def Let_def server_inv_def set_room_def room_inv_def
           split: option.splits intro!: rooms_inv_update)

lemma join_room_inv:
  "server_inv s \<Longrightarrow> join_room s w rc nm clr rnd = Inr (s1, out) \<Longrightarrow> server_inv s1"
  by (auto simp: join_room_def Let_def set_room_def server_inv_def
           split: option.splits if_splits
           intro!: rooms_inv_update room_inv_add_player dest: rooms_invD)

lemma guarded_inv:
  assumes "server_inv s"
    and "bound_room s w = None \<Longrightarrow> P"
    and "\<And>code room. bound_room s w = Some (code, room) \<Longrightarrow> room_inv room \<Longrightarrow> P"
  shows P
proof (cases "bound_room s w")
  case None
  then show ?thesis by (rule assms(2))
next
  case (Some cr)
  then obtain code room where b: "bound_room s w = Some (code, room)"
    by (cases cr) auto
  with assms(1) have "room_inv room"
    by (rule server_invD)
  with b show ?thesis by (rule assms(3))
qed

lemma player_ready_inv:
  assumes "server_inv s" and "player_ready s w rdy = Inr (s1, out)"
  shows "server_inv s1"
proof (rule guarded_inv [OF assms(1), of w])
  assume "bound_room s w = None"
  with assms show ?thesis
    by (simp add: player_ready_def)
next
  fix code room
  assume "bound_room s w = Some (code, room)" and "room_inv room"
  with assms show ?thesis
    by (auto simp: player_ready_def Let_def set_room_def server_inv_def
             split: option.splits if_splits intro!: rooms_inv_update room_inv_set_player)
qed

lemma start_game_inv:
  assumes "server_inv s" and "start_game s w = Inr (s1, out)"
  shows "server_inv s1"
proof (rule guarded_inv [OF assms(1), of w])
  assume "bound_room s w = None"
  with assms show ?thesis
    by (simp add: start_game_def)
next
  fix code room
  assume "bound_room s w = Some (code, room)" and "room_inv room"
  with assms show ?thesis
    by (auto simp: start_game_def Let_def set_room_def server_inv_def
             split: option.splits if_splits intro!: rooms_inv_update room_inv_started)
qed

lemma player_position_inv:
  assumes "server_inv s" and "player_position s w x y = Inr (s1, out)"
  shows "server_inv s1"
proof (rule guarded_inv [OF assms(1), of w])
  assume "bound_room s w = None"
  with assms show ?thesis
    by (simp add: player_position_def)
next
  fix code room
  assume "bound_room s w = Some (code, room)" and "room_inv room"
  with assms show ?thesis
    by (auto simp: player_position_def Let_def set_room_def server_inv_def
             split: option.splits if_splits intro!: rooms_inv_update )
qed

lemma lobby_position_inv:
  assumes "server_inv s" and "lobby_position s w x y = Inr (s1, out)"
  shows "server_inv s1"
proof (rule guarded_inv [OF assms(1), of w])
  assume "bound_room s w = None"
  with assms show ?thesis
    by (simp add: lobby_position_def)
next
  fix code room
  assume "bound_room s w = Some (code, room)" and "room_inv room"
  with assms show ?thesis
    by (auto simp: lobby_position_def Let_def set_room_def server_inv_def
             split: option.splits if_splits intro!: rooms_inv_update )
qed

lemma player_died_inv:
  assumes "server_inv s" and "player_died s w x y = Inr (s1, out)"
  shows "server_inv s1"
proof (rule guarded_inv [OF assms(1), of w])
  assume "bound_room s w = None"
  with assms show ?thesis
    by (simp add: player_died_def)
next
  fix code room
  assume "bound_room s w = Some (code, room)" and "room_inv room"
  with assms show ?thesis
    by (auto simp: player_died_def Let_def set_room_def server_inv_def
             split: option.splits if_splits intro!: rooms_inv_update room_inv_died)
qed

lemma revive_player_inv:
  assumes "server_inv s" and "revive_player s w t = Inr (s1, out)"
  shows "server_inv s1"
proof (rule guarded_inv [OF assms(1), of w])
  assume "bound_room s w = None"
  with assms show ?thesis
    by (simp add: revive_player_def)
next
  fix code room
  assume "bound_room s w = Some (code, room)" and "room_inv room"
  with assms show ?thesis
    by (auto simp: revive_player_def Let_def set_room_def server_inv_def
             split: option.splits if_splits intro!: rooms_inv_update room_inv_revived)
qed

lemma player_finished_inv:
  assumes "server_inv s" and "player_finished s w = Inr (s1, out)"
  shows "server_inv s1"
proof (rule guarded_inv [OF assms(1), of w])
  assume "bound_room s w = None"
  with assms show ?thesis
    by (simp add: player_finished_def)
next
  fix code room
  assume "bound_room s w = Some (code, room)" and "room_inv room"
  with assms show ?thesis
    by (auto simp: player_finished_def Let_def set_room_def server_inv_def
             split: option.splits if_splits intro!: rooms_inv_update room_inv_finished)
qed

lemma on_message_inv:
  "server_inv s \<Longrightarrow> on_message s w m rnd = Inr (s1, out) \<Longrightarrow> server_inv s1"
  by (cases m)
     (auto elim: create_room_inv join_room_inv player_ready_inv start_game_inv
        player_position_inv lobby_position_inv player_died_inv revive_player_inv
        player_finished_inv)

lemma advanceLevel_inv:
  "server_inv s \<Longrightarrow> advanceLevel s code = (s1, out) \<Longrightarrow> server_inv s1"
  by (auto simp: advanceLevel_def Let_def set_room_def server_inv_def
           split: option.splits if_splits
           intro!: rooms_inv_update room_inv_advanced dest: rooms_invD)

lemma on_timeout_inv:
  "server_inv s \<Longrightarrow> on_timeout s = (s1, out) \<Longrightarrow> server_inv s1"
  by (auto simp: on_timeout_def Let_def server_inv_def split: list.splits option.splits
           dest: advanceLevel_inv [unfolded server_inv_def, rotated])

lemma object_keys_ConsD: "object_keys al = k # ks \<Longrightarrow> al \<noteq> []"
  by (auto simp: object_keys_def object_entries_def)

lemma on_close_inv:
  assumes "server_inv s" and "on_close s w = (s1, out)"
  shows "server_inv s1"
proof -
  let ?s = "s\<lparr>closed := insert w (closed s)\<rparr>"
  have inv: "server_inv ?s"
    using assms(1) by (simp add: server_inv_def)
  show ?thesis
  proof (rule guarded_inv [OF inv, of w])
    assume "bound_room ?s w = None"
    with assms show ?thesis
      by (auto simp: on_close_def Let_def server_inv_def)
  next
    fix code room
    assume "bound_room ?s w = Some (code, room)" and "room_inv room"
    with assms show ?thesis
      by (auto simp: on_close_def Let_def set_room_def server_inv_def delete_update_same
               split: list.splits if_splits dest!: object_keys_ConsD
               intro!: rooms_inv_update rooms_inv_delete room_inv_left)
  qed
qed

lemma step_inv: "server_inv s \<Longrightarrow> step s e = Inr (s1, out) \<Longrightarrow> server_inv s1"
  by (cases e) (auto elim: on_message_inv on_close_inv on_timeout_inv)

lemma reachable_inv: "reachable s \<Longrightarrow> server_inv s"
proof (induction rule: reachable.induct)
  case reachable_init
  show ?case by (simp add: server_inv_def rooms_inv_def init_server_def)
next
  case (reachable_step s e s1 out)
  then show ?case by (auto elim: step_inv)
qed

subsection \<open>Runs and reachability\<close>

lemma exec_reachable:
  "reachable s \<Longrightarrow> exec s es = Some (s1, out) \<Longrightarrow> reachable s1"
proof (induction es arbitrary: s out)
  case Nil
  then show ?case by simp
next
  case (Cons e es)
  from Cons.prems(2) obtain s2 out2 s3 out3 where
    en: "enabled s e" and st: "step s e = Inr (s2, out2)" and ex: "exec s2 es = Some (s3, out3)"
    and eq: "s1 = s3"
    by (auto split: if_splits sum.splits option.splits)
  from Cons.prems(1) en st have "reachable s2"
    by (rule reachable_step)
  with ex eq show ?case
    using Cons.IH by blast
qed

lemma reachable_after: "reachable (after es)"
  by (auto simp: after_def split: option.splits intro: reachable_init exec_reachable)


lemma sendTo_set_room [simp]: "sendTo (set_room s code room) = sendTo s"
  by (simp add: sendTo_def set_room_def fun_eq_iff)


subsection \<open>The key order of an object\<close>




subsection \<open>Sending on disconnect\<close>

lemma bound_room_closed [simp]: "bound_room (s\<lparr>closed := c\<rparr>) w = bound_room s w"
  by (simp add: bound_room_def split: option.splits)

lemma current_id_closed [simp]: "current_id (s\<lparr>closed := c\<rparr>) w = current_id s w"
  by (simp add: current_id_def)





subsection \<open>The name loop\<close>




subsection \<open>The table of level wins never loses an entry\<close>

























subsection \<open>Messages that carry the table\<close>



















subsection \<open>What the guard and the checks do guarantee\<close>

text \<open>
  A connection without a live room: each of the six operations behind the guard returns
  the state as it is and sends nothing. A refused \<^verbatim>\<open>join_room\<close>: the rooms, the bound
  room code, the timers and the connections are as before, the requester alone is sent
  the error, and only \<open>playerId\<close> of its session is overwritten.
\<close>

lemma unbound_operations_ignored:
  assumes "bound_room s w = None"
  shows "player_ready s w rdy = Inr (s, [])"
    and "player_died s w x y = Inr (s, [])"
    and "player_position s w x y = Inr (s, [])"
    and "player_finished s w = Inr (s, [])"
    and "revive_player s w t = Inr (s, [])"
    and "lobby_position s w x y = Inr (s, [])"
  using assms
  by (simp_all add: player_ready_def player_died_def player_position_def player_finished_def
        revive_player_def lobby_position_def)

lemma refused_join:
  assumes "join_name nm rnd = Some pid0"
    and "map_of (rooms s) (toUpperCase rc) = None
         \<or> (\<exists>room. map_of (rooms s) (toUpperCase rc) = Some room
               \<and> (started room \<or> 10 \<le> length (object_keys (players room))))"
  shows "\<exists>text. join_room s w rc nm clr rnd =
           Inr (s\<lparr>sessions := (sessions s)(w := (sessions s w)\<lparr>playerId := Some pid0\<rparr>)\<rparr>,
                sendTo s w (Error text))"
  using assms
  by (auto simp: join_room_def Let_def sendTo_def)

section \<open>The claims\<close>



text \<open>
  Claim C2 (one level win per level). The claim says that only the first
  \<^verbatim>\<open>player_finished\<close> call of a level increments a \<open>level_wins\<close> entry. The handler
  credits a win whenever the finished set has size one after the call, which is also
  the case when the only finisher reports again: in a started match of two, the
  second report of \<^verbatim>\<open>A\<close> in level 1 raises its count to 2 and schedules a second
  timer.
\<close>

theorem C2_repeated_finish_credited_twice:
  "map_option level_wins (room_after (match_of_two @ [Message 0 PlayerFinished []]) ''AAAA'')
     = Some [(''A'', 1), (''B'', 0)]
   \<and> map_option level_wins
         (room_after (match_of_two @ [Message 0 PlayerFinished [], Message 0 PlayerFinished []]) ''AAAA'')
     = Some [(''A'', 2), (''B'', 0)]
   \<and> map_option current_level
         (room_after (match_of_two @ [Message 0 PlayerFinished [], Message 0 PlayerFinished []]) ''AAAA'')
     = Some 1
   \<and> timers (after (match_of_two @ [Message 0 PlayerFinished [], Message 0 PlayerFinished []])) = [0, 0]"
  by code_simp

text \<open>
  Claim C3 (the level of a live room stays within 1..21 in every reachable state). As
  stated this fails: \<^verbatim>\<open>player_finished\<close> is
  accepted whatever \<open>started\<close> says and every first finisher schedules a timer, so the
  level keeps growing after the match has ended. In the match of two, twenty finishes
  and timers end the match at level 21, and one more of each gives level 22.
\<close>

theorem C3_level_22_reached:
  "map_option current_level (room_after beyond_last_level ''AAAA'') = Some 22
   \<and> map_option started (room_after beyond_last_level ''AAAA'') = Some False"
  by code_simp

text \<open>
  Claim C3, amended: in every reachable state the level of a live room is at least 1,
  and it is at most 20 while the match is in progress. No bound holds for a room whose
  match has ended or has not started.
\<close>

theorem C3_level_bounds:
  assumes "reachable s" and "map_of (rooms s) code = Some room"
  shows "1 \<le> current_level room \<and> (started room \<longrightarrow> current_level room \<le> 20)"
  using reachable_inv [OF assms(1)] assms(2)
  by (auto simp: server_inv_def room_inv_def dest: rooms_invD)

theorem C3_level_bounds_witness:
  "reachable (after match_of_two)
   \<and> map_of (rooms (after match_of_two)) ''AAAA'' = Some (the (room_after match_of_two ''AAAA''))
   \<and> started (the (room_after match_of_two ''AAAA''))
   \<and> 1 \<le> current_level (the (room_after match_of_two ''AAAA''))
   \<and> current_level (the (room_after match_of_two ''AAAA'')) \<le> 20"
proof -
  have r: "reachable (after match_of_two)"
    by (rule reachable_after)
  have m: "map_of (rooms (after match_of_two)) ''AAAA'' = Some (the (room_after match_of_two ''AAAA''))"
    by code_simp
  have st: "started (the (room_after match_of_two ''AAAA''))"
    by code_simp
  from C3_level_bounds [OF r m] st r m show ?thesis
    by simp
qed








text \<open>
  Claim C7 (post-join operations of a sender that is not a player are silent no-ops).
  The guard of the handlers tests the room only. After a failed \<^verbatim>\<open>join_room\<close> the
  connection is still bound to room \<^verbatim>\<open>AAAA\<close> but its \<open>playerId\<close> is \<^verbatim>\<open>B\<close>, which
  is no player there: \<^verbatim>\<open>player_ready\<close> and \<^verbatim>\<open>player_died\<close> then throw a
  \<^verbatim>\<open>TypeError\<close>, and \<^verbatim>\<open>player_finished\<close> credits \<^verbatim>\<open>B\<close> with a level win and
  notifies the room. (For a connection without a live room the operations are silent
  no-ops: lemma \<open>unbound_operations_ignored\<close>.)
\<close>

theorem C7_stale_id_not_ignored:
  "map_option (\<lambda>r. map fst (players r)) (room_after stale_id ''AAAA'') = Some [''A'']
   \<and> current_id (after stale_id) 0 = ''B''
   \<and> failure_of (step (after stale_id) (Message 0 (PlayerReady True) [])) = Some TypeError
   \<and> failure_of (step (after stale_id) (Message 0 (PlayerDied 1 2) [])) = Some TypeError
   \<and> map_option level_wins (room_after stale_id ''AAAA'') = Some []
   \<and> map_option level_wins (room_after (stale_id @ [Message 0 PlayerFinished []]) ''AAAA'')
       = Some [(''B'', 1)]
   \<and> replies (step (after stale_id) (Message 0 PlayerFinished []))
       = [(0, Player_finished ''B'' True 1 1 [(''B'', 1)])]"
  by code_simp

text \<open>
  Claim C8 (an error reply leaves the state and the session binding unchanged).
  \<^verbatim>\<open>join_room\<close> assigns \<open>playerId\<close> before its three checks, so a refused join
  leaves the rooms and the bound room code alone but replaces the player id of the
  session: connection 0, bound to \<^verbatim>\<open>AAAA\<close> as \<^verbatim>\<open>A\<close>, is answered
  \<^verbatim>\<open>Room not found\<close> and is \<^verbatim>\<open>B\<close> afterwards; in the started match of two it is
  answered \<^verbatim>\<open>Game already started\<close> and is \<^verbatim>\<open>Z\<close> afterwards. (Everything but
  \<open>playerId\<close> is kept: lemma \<open>refused_join\<close>; the error path of \<^verbatim>\<open>start_game\<close>
  returns the state as it is.)
\<close>

theorem C8_failed_join_overwrites_playerId:
  "playerId (sessions (after [Message 0 (CreateRoom ''A'' '''') [0, 0, 0, 0]]) 0) = Some ''A''
   \<and> replies (step (after [Message 0 (CreateRoom ''A'' '''') [0, 0, 0, 0]])
                 (Message 0 (JoinRoom ''ZZZZ'' ''B'' '''') []))
       = [(0, Error ''Room not found'')]
   \<and> playerId (sessions (after stale_id) 0) = Some ''B''
   \<and> playerRoomCode (sessions (after stale_id) 0) = Some ''AAAA''
   \<and> rooms (after stale_id) = rooms (after [Message 0 (CreateRoom ''A'' '''') [0, 0, 0, 0]])
   \<and> playerId (sessions (after match_of_two) 0) = Some ''A''
   \<and> replies (step (after match_of_two) (Message 0 (JoinRoom ''aaaa'' ''Z'' '''') []))
       = [(0, Error ''Game already started'')]
   \<and> playerId (sessions (after (match_of_two @ [Message 0 (JoinRoom ''aaaa'' ''Z'' '''') []])) 0)
       = Some ''Z''
   \<and> playerRoomCode (sessions (after (match_of_two @ [Message 0 (JoinRoom ''aaaa'' ''Z'' '''') []])) 0)
       = Some ''AAAA''
   \<and> rooms (after (match_of_two @ [Message 0 (JoinRoom ''aaaa'' ''Z'' '''') []]))
       = rooms (after match_of_two)"
  by code_simp

text \<open>
  Claim C9 (a player entry lives exactly as long as its connection). The close handler
  removes the entry of the room the connection is bound to last. Connection 0 creates
  \<^verbatim>\<open>AAAA\<close> and then \<^verbatim>\<open>BBBB\<close>; when it disconnects, \<^verbatim>\<open>BBBB\<close> is emptied and
  deleted, while \<^verbatim>\<open>AAAA\<close> stays in the registry with the entry \<^verbatim>\<open>A\<close> of the closed
  connection.
\<close>

theorem C9_entry_outlives_connection:
  "0 \<in> closed (after two_rooms)
   \<and> map fst (rooms (after two_rooms)) = [''AAAA'']
   \<and> map_option (\<lambda>r. map (\<lambda>(i, p). (i, ws p)) (players r)) (room_after two_rooms ''AAAA'')
       = Some [(''A'', 0)]"
  by code_simp




end
